theory Spec2Isabelle
  imports Complex_Main
begin

section \<open>The 5COIN ledger: data model of \<open>backend/server.js\<close>\<close>

subsection \<open>Numbers\<close>

text \<open>
  Balances, amounts and fees are JavaScript Numbers. A finite Number is modelled by the
  real it denotes (arithmetic is exact, rounding is not modelled); \<open>NaN\<close> is kept as a
  value of its own, because the handlers can produce it (a rate looked up outside the
  table is \<open>undefined\<close>, and arithmetic with \<open>undefined\<close> gives \<open>NaN\<close>).
  Every arithmetic operation propagates \<open>NaN\<close> and every comparison with \<open>NaN\<close>
  is false, as in the language.
\<close>

datatype jsnum = Num real | NaN

fun jsadd :: "jsnum \<Rightarrow> jsnum \<Rightarrow> jsnum" where
  "jsadd (Num a) (Num b) = Num (a + b)"
| "jsadd _ _ = NaN"

fun jssub :: "jsnum \<Rightarrow> jsnum \<Rightarrow> jsnum" where
  "jssub (Num a) (Num b) = Num (a - b)"
| "jssub _ _ = NaN"

fun jsmul :: "jsnum \<Rightarrow> jsnum \<Rightarrow> jsnum" where
  "jsmul (Num a) (Num b) = Num (a * b)"
| "jsmul _ _ = NaN"

fun jsneg :: "jsnum \<Rightarrow> jsnum" where
  "jsneg (Num a) = Num (- a)"
| "jsneg NaN = NaN"

fun jslt :: "jsnum \<Rightarrow> jsnum \<Rightarrow> bool" where
  "jslt (Num a) (Num b) = (a < b)"
| "jslt _ _ = False"

fun jsge :: "jsnum \<Rightarrow> jsnum \<Rightarrow> bool" where
  "jsge (Num a) (Num b) = (b \<le> a)"
| "jsge _ _ = False"


subsection \<open>Schemas\<close>

datatype coin = NC | SC | GC | DC | SKA

record coins =
  nc :: jsnum
  sc :: jsnum
  gc :: jsnum
  dc :: jsnum
  ska :: jsnum

text \<open>\<open>user.coins[coinType]\<close>, read and assigned, for the five keys of the schema.\<close>

fun get_coin :: "coins \<Rightarrow> coin \<Rightarrow> jsnum" where
  "get_coin cs NC = nc cs"
| "get_coin cs SC = sc cs"
| "get_coin cs GC = gc cs"
| "get_coin cs DC = dc cs"
| "get_coin cs SKA = ska cs"

fun set_coin :: "coins \<Rightarrow> coin \<Rightarrow> jsnum \<Rightarrow> coins" where
  "set_coin cs NC v = cs\<lparr>nc := v\<rparr>"
| "set_coin cs SC v = cs\<lparr>sc := v\<rparr>"
| "set_coin cs GC v = cs\<lparr>gc := v\<rparr>"
| "set_coin cs DC v = cs\<lparr>dc := v\<rparr>"
| "set_coin cs SKA v = cs\<lparr>ska := v\<rparr>"

text \<open>
  A user document. The timestamps \<open>createdAt\<close> of a user and \<open>timestamp\<close> of a
  transaction play no part in the handlers and are left out.
\<close>

record user =
  userId :: int
  username :: "string option"
  firstName :: "string option"
  lastName :: "string option"
  referralCode :: string
  referredBy :: "string option"
  coins :: coins
  referrals :: jsnum
  earned :: jsnum

text \<open>
  The \<open>details\<close> object of a transaction, one constructor for each shape the handlers
  build: swap \<open>{fromCoin, toCoin, amount, received, fee}\<close>, bet
  \<open>{coinType, amount, avatar, result: {win, amount}}\<close>, withdrawal
  \<open>{coinType, amount, method, details, etbValue, fee, received}\<close> and referral
  \<open>{referredUserId, bonus}\<close>.
\<close>

datatype details =
  SwapDetails coin coin jsnum jsnum jsnum
| BetDetails coin jsnum string bool jsnum
| WithdrawalDetails coin jsnum string string jsnum jsnum jsnum
| ReferralDetails int jsnum

record transaction =
  tx_userId :: int
  tx_type :: string
  tx_details :: details

text \<open>
  The two collections, and the number of calls made to \<open>Math.random\<close> so far. The
  values the generator yields are a parameter \<open>rnd\<close> of the handlers that draw: the
  \<open>n\<close>-th call returns \<open>rnd n\<close>.
\<close>

record world =
  users :: "user list"
  transactions :: "transaction list"
  random_calls :: nat

subsection \<open>Queries and saves\<close>

definition findOne_userId :: "user list \<Rightarrow> int \<Rightarrow> user option" where
  "findOne_userId us uid = find (\<lambda>u. userId u = uid) us"

definition findOne_referralCode :: "user list \<Rightarrow> string \<Rightarrow> user option" where
  "findOne_referralCode us code = find (\<lambda>u. referralCode u = code) us"

text \<open>
  \<open>save()\<close> of a document that was loaded from the collection writes the paths the
  handler assigned into the stored document (\<open>userId\<close> is unique by the schema and
  identifies it). \<open>update_doc us uid f\<close> applies the assignment \<open>f\<close> to the stored
  document of \<open>uid\<close>.
\<close>

fun update_doc :: "user list \<Rightarrow> int \<Rightarrow> (user \<Rightarrow> user) \<Rightarrow> user list" where
  "update_doc [] uid f = []"
| "update_doc (u # us) uid f =
     (if userId u = uid then f u # us else u # update_doc us uid f)"

subsection \<open>Responses\<close>

text \<open>
  The error responses of the routes: status 400 with \<open>'Insufficient balance'\<close>,
  \<open>'Invalid referral code'\<close> or \<open>'Already used a referral code'\<close>, and status 500
  from the \<open>catch\<close> block (here: reading \<open>coins\<close> or \<open>referredBy\<close> of \<open>null\<close>
  when no user has the given id).
\<close>

datatype error = InsufficientBalance | InvalidReferralCode | AlreadyReferred | ServerError

record swap_ok =
  received :: jsnum
  fee :: jsnum
  newBalance :: coins

record bet_ok =
  win :: bool
  amount :: jsnum
  bet_newBalance :: coins

record withdraw_ok =
  wd_received :: jsnum
  wd_fee :: jsnum

record referral_ok =
  bonus :: jsnum

datatype bot_message = Welcome string | WelcomeBack jsnum | PlayGame | Sorry

section \<open>The routes\<close>

subsection \<open>POST /api/user/:userId/coins\<close>


subsection \<open>POST /api/swap\<close>




subsection \<open>POST /api/bet\<close>

definition bet ::
  "(nat \<Rightarrow> real) \<Rightarrow> world \<Rightarrow> int \<Rightarrow> coin \<Rightarrow> jsnum \<Rightarrow> string \<Rightarrow> (error + bet_ok) \<times> world" where
  "bet rnd w uid coinType amt avatar =
     (case findOne_userId (users w) uid of
        None \<Rightarrow> (Inl ServerError, w)
      | Some user \<Rightarrow>
          if jslt (get_coin (coins user) coinType) amt then (Inl InsufficientBalance, w)
          else
            let draw = rnd (random_calls w);
                won = (draw > 0.5);
                winAmount = jsmul amt (Num 1.8);
                c = (if won
                     then set_coin (coins user) coinType
                            (jsadd (get_coin (coins user) coinType) winAmount)
                     else set_coin (coins user) coinType
                            (jssub (get_coin (coins user) coinType) amt));
                result_amount = (if won then winAmount else jsneg amt);
                us = update_doc (users w) uid (\<lambda>d. d\<lparr>coins := c\<rparr>);
                tx = \<lparr>tx_userId = uid, tx_type = ''bet'',
                      tx_details = BetDetails coinType amt avatar won result_amount\<rparr>
            in (Inr \<lparr>win = won, amount = result_amount, bet_newBalance = c\<rparr>,
                w\<lparr>users := us, transactions := transactions w @ [tx],
                  random_calls := Suc (random_calls w)\<rparr>))"

subsection \<open>POST /api/withdraw\<close>

text \<open>
  The response carries \<open>received\<close> and \<open>fee\<close>; its \<open>message\<close> is a rendering of
  \<open>received\<close> and is left out.
\<close>

fun coinValues :: "coin \<Rightarrow> real" where
  "coinValues NC = 2"
| "coinValues SC = 2000"
| "coinValues GC = 20000"
| "coinValues DC = 200000"
| "coinValues SKA = 2000000"

definition withdraw ::
  "world \<Rightarrow> int \<Rightarrow> coin \<Rightarrow> jsnum \<Rightarrow> string \<Rightarrow> string \<Rightarrow> (error + withdraw_ok) \<times> world" where
  "withdraw w uid coinType amt method dets =
     (case findOne_userId (users w) uid of
        None \<Rightarrow> (Inl ServerError, w)
      | Some user \<Rightarrow>
          if jslt (get_coin (coins user) coinType) amt then (Inl InsufficientBalance, w)
          else
            let etbValue = jsmul amt (Num (coinValues coinType));
                fee = (if jsge etbValue (Num 25) then Num 2 else jsmul etbValue (Num 0.08));
                received = jssub etbValue fee;
                c = set_coin (coins user) coinType
                      (jssub (get_coin (coins user) coinType) amt);
                us = update_doc (users w) uid (\<lambda>d. d\<lparr>coins := c\<rparr>);
                tx = \<lparr>tx_userId = uid, tx_type = ''withdrawal'',
                      tx_details = WithdrawalDetails coinType amt method dets
                                     etbValue fee received\<rparr>
            in (Inr \<lparr>wd_received = received, wd_fee = fee\<rparr>,
                w\<lparr>users := us, transactions := transactions w @ [tx]\<rparr>))"

subsection \<open>POST /api/referral\<close>

text \<open>\<open>if (user.referredBy)\<close>: \<open>null\<close> and the empty string are falsy.\<close>

fun truthy :: "string option \<Rightarrow> bool" where
  "truthy None = False"
| "truthy (Some s) = (s \<noteq> [])"

definition referral_bonus :: real where
  "referral_bonus = 0.0005"

text \<open>
  The assignments made to the referrer document before it is saved: \<open>referrals\<close>,
  \<open>earned\<close> and \<open>coins.nc\<close>, each computed from the document \<open>referrer\<close> as it was
  loaded. The other paths of the stored document \<open>d\<close> are not written.
\<close>

definition pay_referrer :: "user \<Rightarrow> user \<Rightarrow> user" where
  "pay_referrer referrer d =
     d\<lparr>referrals := jsadd (referrals referrer) (Num 1),
       earned := jsadd (earned referrer) (Num referral_bonus),
       coins := (coins d)\<lparr>nc := jsadd (nc (coins referrer)) (Num referral_bonus)\<rparr>\<rparr>"

definition referral :: "world \<Rightarrow> int \<Rightarrow> string \<Rightarrow> (error + referral_ok) \<times> world" where
  "referral w uid code =
     (case findOne_referralCode (users w) code of
        None \<Rightarrow> (Inl InvalidReferralCode, w)
      | Some referrer \<Rightarrow>
          (case findOne_userId (users w) uid of
             None \<Rightarrow> (Inl ServerError, w)
           | Some user \<Rightarrow>
               if truthy (referredBy user) then (Inl AlreadyReferred, w)
               else
                 let us1 = update_doc (users w) uid (\<lambda>d. d\<lparr>referredBy := Some code\<rparr>);
                     us2 = update_doc us1 (userId referrer) (pay_referrer referrer);
                     tx = \<lparr>tx_userId = userId referrer, tx_type = ''referral'',
                           tx_details = ReferralDetails uid (Num referral_bonus)\<rparr>
                 in (Inr \<lparr>bonus = Num referral_bonus\<rparr>,
                     w\<lparr>users := us2, transactions := transactions w @ [tx]\<rparr>)))"

subsection \<open>The bot command /start\<close>

text \<open>\<open>userId.toString(16).toUpperCase()\<close>\<close>

definition hex_digit :: "nat \<Rightarrow> char" where
  "hex_digit d = ''0123456789ABCDEF'' ! d"

fun hex_nat :: "nat \<Rightarrow> string" where
  "hex_nat n = (if n < 16 then [hex_digit n] else hex_nat (n div 16) @ [hex_digit (n mod 16)])"

declare hex_nat.simps [simp del]

definition toString16Upper :: "int \<Rightarrow> string" where
  "toString16Upper i = (if i < 0 then CHR ''-'' # hex_nat (nat (- i)) else hex_nat (nat i))"

definition zero_coins :: coins where
  "zero_coins = \<lparr>nc = Num 0, sc = Num 0, gc = Num 0, dc = Num 0, ska = Num 0\<rparr>"

text \<open>
  \<open>start w uid uname fname lname code\<close>: the handler of \<open>/start\<close> for the sender
  \<open>uid\<close>, where \<open>code\<close> is the constant \<open>referralCode\<close> of the handler (the trimmed
  text after the command, or \<open>null\<close>). It returns the messages sent to the chat.
  A new document takes the schema's defaults for \<open>referredBy\<close>, \<open>referrals\<close> and
  \<open>earned\<close>.
\<close>

definition start ::
  "world \<Rightarrow> int \<Rightarrow> string option \<Rightarrow> string option \<Rightarrow> string option \<Rightarrow> string option
     \<Rightarrow> bot_message list \<times> world" where
  "start w uid uname fname lname code =
     (case findOne_userId (users w) uid of
        None \<Rightarrow>
          let user = \<lparr>userId = uid, username = uname, firstName = fname, lastName = lname,
                      referralCode = ''5COIN-'' @ toString16Upper uid,
                      referredBy = None, coins = zero_coins,
                      referrals = Num 0, earned = Num 0\<rparr>;
              found = (case code of
                         None \<Rightarrow> None
                       | Some s \<Rightarrow> if truthy code then findOne_referralCode (users w) s else None);
              user1 = (case found of None \<Rightarrow> user | Some referrer \<Rightarrow> user\<lparr>referredBy := code\<rparr>);
              us1 = (case found of None \<Rightarrow> users w
                     | Some referrer \<Rightarrow> update_doc (users w) (userId referrer) (pay_referrer referrer))
          in ([Welcome (referralCode user1), PlayGame], w\<lparr>users := us1 @ [user1]\<rparr>)
      | Some user \<Rightarrow> ([WelcomeBack (nc (coins user)), PlayGame], w))"

section \<open>Sequences of requests\<close>







section \<open>An example collection\<close>

definition alice :: user where
  "alice = \<lparr>userId = 1, username = Some ''alice'', firstName = None, lastName = None,
             referralCode = ''5COIN-1'', referredBy = None,
             coins = \<lparr>nc = Num 100, sc = Num 0, gc = Num 100, dc = Num 0, ska = Num 0.00001\<rparr>,
             referrals = Num 0, earned = Num 0\<rparr>"

definition w0 :: world where
  "w0 = \<lparr>users = [alice], transactions = [], random_calls = 0\<rparr>"

section \<open>Collections and rate table: basic facts\<close>


lemma findOne_userId_SomeD:
  "findOne_userId us uid = Some u \<Longrightarrow> u \<in> set us \<and> userId u = uid"
  unfolding findOne_userId_def by (induction us) (auto split: if_splits)

lemma findOne_update_doc:
  assumes "\<And>d. userId (f d) = userId d"
  shows "findOne_userId (update_doc us uid f) uid' =
         (if uid' = uid then map_option f (findOne_userId us uid) else findOne_userId us uid')"
  unfolding findOne_userId_def using assms by (induction us) auto


lemma findOne_alice [simp]: "findOne_userId (users w0) 1 = Some alice"
  by (simp add: findOne_userId_def w0_def alice_def)

lemma findOne_update_coins:
  "findOne_userId us uid = Some u \<Longrightarrow>
   findOne_userId (update_doc us uid (\<lambda>d. d\<lparr>coins := c\<rparr>)) uid = Some (u\<lparr>coins := c\<rparr>)"
  by (simp add: findOne_update_doc)






section \<open>Non-negative balances are preserved by requests with non-negative amounts\<close>
















section \<open>The claims\<close>

subsection \<open>C1: balances never below zero\<close>




subsection \<open>C2: payout of a bet\<close>

text \<open>
  C2. The comment in the handler promises 80% profit on a win, which is a balance of
  \<open>old + 0.8 * amount\<close>. The handler adds \<open>amount * 1.8\<close> to the balance and never
  takes the stake off: with a GC balance of 100, a bet of 50 that wins (draw 0.7) leaves
  190 where the claim says 140. The losing bet (draw 0.3) leaves \<open>100 - 50 = 50\<close>, as
  claimed.
\<close>

theorem bet_win_credits_whole_payout:
  "map_option (\<lambda>u. gc (coins u))
     (findOne_userId (users (snd (bet (\<lambda>_. 0.7) w0 1 GC (Num 50) ''fox''))) 1) = Some (Num 190)
   \<and> get_coin (coins alice) GC = Num 100
   \<and> map_option (\<lambda>u. gc (coins u))
     (findOne_userId (users (snd (bet (\<lambda>_. 0.3) w0 1 GC (Num 50) ''fox''))) 1) = Some (Num 50)"
  by (simp add: bet_def Let_def findOne_userId_def w0_def alice_def)

subsection \<open>C3: validation of the amount\<close>




subsection \<open>C4: swapping a coin for itself\<close>




subsection \<open>C5: a round trip loses both fees\<close>



subsection \<open>C6: one transaction for each mutation\<close>

text \<open>
  C6. \<open>POST /api/referral\<close> records a transaction of type \<open>referral\<close> for the bonus
  it pays. The referral branch of \<open>/start\<close> pays the same bonus and records nothing:
  when user 2 starts with the code of user 1, user 1 gets 0.0005 NC, one more referral
  and 0.0005 earned, and the transaction collection is as before. The same referral
  made through the route, after a \<open>/start\<close> without code, leaves one transaction.
\<close>

theorem start_referral_without_transaction:
  "findOne_userId (users (snd (start w0 2 None None None (Some ''5COIN-1'')))) 1
     = Some (alice\<lparr>referrals := Num 1, earned := Num 0.0005,
                   coins := (coins alice)\<lparr>nc := Num 100.0005\<rparr>\<rparr>)
   \<and> transactions (snd (start w0 2 None None None (Some ''5COIN-1''))) = transactions w0
   \<and> transactions (snd (referral (snd (start w0 2 None None None None)) 2 ''5COIN-1''))
       = [\<lparr>tx_userId = 1, tx_type = ''referral'',
            tx_details = ReferralDetails 2 (Num 0.0005)\<rparr>]"
  by (simp add: start_def referral_def pay_referrer_def referral_bonus_def Let_def
      findOne_userId_def findOne_referralCode_def w0_def alice_def)

subsection \<open>C7: referring oneself\<close>

text \<open>
  The route does not compare the owner of the code with the acting user: user 1, not
  yet referred, submits the own code \<open>5COIN-1\<close> and is answered with success; the
  account is bound to its own code and receives the bonus.
\<close>

theorem self_referral_accepted:
  "findOne_referralCode (users w0) ''5COIN-1'' = Some alice
   \<and> findOne_userId (users w0) 1 = Some alice
   \<and> referral w0 1 ''5COIN-1'' =
       (Inr \<lparr>bonus = Num 0.0005\<rparr>,
        w0\<lparr>users := [alice\<lparr>referredBy := Some ''5COIN-1'', referrals := Num 1,
                            earned := Num 0.0005,
                            coins := (coins alice)\<lparr>nc := Num 100.0005\<rparr>\<rparr>],
           transactions := [\<lparr>tx_userId = 1, tx_type = ''referral'',
                              tx_details = ReferralDetails 1 (Num 0.0005)\<rparr>]\<rparr>)"
  by (simp add: referral_def pay_referrer_def referral_bonus_def Let_def
      findOne_userId_def findOne_referralCode_def w0_def alice_def)

text \<open>
  C7 (as amended). \<open>POST /api/referral\<close> refuses, changing nothing, a code that belongs
  to no user (\<open>Invalid referral code\<close>) and any code when the acting user already has a
  \<open>referredBy\<close> (\<open>Already used a referral code\<close>). A code that belongs to the acting
  user is not refused: while the user has no \<open>referredBy\<close>, the call succeeds, sets
  \<open>referredBy\<close> to the own code and pays the bonus to the same account.
\<close>

theorem referral_rejections:
  "(findOne_referralCode (users w) code = None \<longrightarrow>
      referral w uid code = (Inl InvalidReferralCode, w))
   \<and> (\<forall>r u. findOne_referralCode (users w) code = Some r
            \<and> findOne_userId (users w) uid = Some u \<and> truthy (referredBy u) \<longrightarrow>
      referral w uid code = (Inl AlreadyReferred, w))
   \<and> (\<forall>u. findOne_referralCode (users w) code = Some u
          \<and> findOne_userId (users w) uid = Some u \<and> \<not> truthy (referredBy u) \<longrightarrow>
      fst (referral w uid code) = Inr \<lparr>bonus = Num referral_bonus\<rparr>
      \<and> findOne_userId (users (snd (referral w uid code))) uid
          = Some (u\<lparr>referredBy := Some code,
                    referrals := jsadd (referrals u) (Num 1),
                    earned := jsadd (earned u) (Num referral_bonus),
                    coins := (coins u)\<lparr>nc := jsadd (nc (coins u)) (Num referral_bonus)\<rparr>\<rparr>))"
proof (intro conjI allI impI)
  assume "findOne_referralCode (users w) code = None"
  then show "referral w uid code = (Inl InvalidReferralCode, w)"
    by (simp add: referral_def)
next
  fix r u
  assume "findOne_referralCode (users w) code = Some r
            \<and> findOne_userId (users w) uid = Some u \<and> truthy (referredBy u)"
  then show "referral w uid code = (Inl AlreadyReferred, w)"
    by (simp add: referral_def)
next
  fix u
  assume a: "findOne_referralCode (users w) code = Some u
          \<and> findOne_userId (users w) uid = Some u \<and> \<not> truthy (referredBy u)"
  then show "fst (referral w uid code) = Inr \<lparr>bonus = Num referral_bonus\<rparr>"
    by (simp add: referral_def Let_def)
  from a have uid: "userId u = uid" by (auto dest: findOne_userId_SomeD)
  have p: "\<And>d. userId (pay_referrer u d) = userId d" by (simp add: pay_referrer_def)
  have q: "\<And>d. userId (d\<lparr>referredBy := Some code\<rparr>) = userId d" by simp
  from a uid
  show "findOne_userId (users (snd (referral w uid code))) uid
          = Some (u\<lparr>referredBy := Some code,
                    referrals := jsadd (referrals u) (Num 1),
                    earned := jsadd (earned u) (Num referral_bonus),
                    coins := (coins u)\<lparr>nc := jsadd (nc (coins u)) (Num referral_bonus)\<rparr>\<rparr>)"
    by (simp add: referral_def Let_def findOne_update_doc [OF p] findOne_update_doc [OF q]
        pay_referrer_def)
qed

theorem referral_rejections_witness:
  "findOne_referralCode (users w0) ''5COIN-9'' = None
   \<and> referral w0 1 ''5COIN-9'' = (Inl InvalidReferralCode, w0)
   \<and> findOne_referralCode (users w0) ''5COIN-1'' = Some alice
   \<and> findOne_userId (users w0) 1 = Some alice \<and> \<not> truthy (referredBy alice)
   \<and> fst (referral w0 1 ''5COIN-1'') = Inr \<lparr>bonus = Num 0.0005\<rparr>
   \<and> findOne_userId (users (snd (referral w0 1 ''5COIN-1''))) 1
       = Some (alice\<lparr>referredBy := Some ''5COIN-1'', referrals := Num 1,
                     earned := Num 0.0005,
                     coins := (coins alice)\<lparr>nc := Num 100.0005\<rparr>\<rparr>)
   \<and> findOne_referralCode (users (snd (referral w0 1 ''5COIN-1''))) ''5COIN-1''
       = Some (alice\<lparr>referredBy := Some ''5COIN-1'', referrals := Num 1,
                     earned := Num 0.0005,
                     coins := (coins alice)\<lparr>nc := Num 100.0005\<rparr>\<rparr>)
   \<and> truthy (referredBy (alice\<lparr>referredBy := Some ''5COIN-1'', referrals := Num 1,
                     earned := Num 0.0005,
                     coins := (coins alice)\<lparr>nc := Num 100.0005\<rparr>\<rparr>))
   \<and> referral (snd (referral w0 1 ''5COIN-1'')) 1 ''5COIN-1''
       = (Inl AlreadyReferred, snd (referral w0 1 ''5COIN-1''))"
proof -
  have h1: "findOne_referralCode (users w0) ''5COIN-9'' = None"
    by (simp add: findOne_referralCode_def w0_def alice_def)
  have h2: "findOne_referralCode (users w0) ''5COIN-1'' = Some alice"
    by (simp add: findOne_referralCode_def w0_def alice_def)
  have h3: "findOne_userId (users w0) 1 = Some alice" by simp
  have h4: "\<not> truthy (referredBy alice)" by (simp add: alice_def)
  define alice' where "alice' = alice\<lparr>referredBy := Some ''5COIN-1'', referrals := Num 1,
                     earned := Num 0.0005,
                     coins := (coins alice)\<lparr>nc := Num 100.0005\<rparr>\<rparr>"
  define w1 where "w1 = snd (referral w0 1 ''5COIN-1'')"
  have g1: "referral w0 1 ''5COIN-9'' = (Inl InvalidReferralCode, w0)"
    using referral_rejections [of w0 "''5COIN-9''" 1] h1 by simp
  have g2: "fst (referral w0 1 ''5COIN-1'') = Inr \<lparr>bonus = Num 0.0005\<rparr>
     \<and> findOne_userId (users w1) 1 = Some alice'"
    using referral_rejections [of w0 "''5COIN-1''" 1] h2 h3 h4
    by (simp add: referral_bonus_def alice_def alice'_def w1_def)
  have g3: "findOne_referralCode (users w1) ''5COIN-1'' = Some alice'"
    by (simp add: w1_def referral_def pay_referrer_def referral_bonus_def Let_def
      findOne_userId_def findOne_referralCode_def w0_def alice_def alice'_def)
  have g4: "truthy (referredBy alice')" by (simp add: alice'_def)
  have g5: "referral w1 1 ''5COIN-1'' = (Inl AlreadyReferred, w1)"
    using referral_rejections [of w1 "''5COIN-1''" 1] g2 g3 g4 by simp
  show ?thesis
    using h1 h2 h3 h4 g1 g2 g3 g4 g5 unfolding alice'_def w1_def by simp
qed

subsection \<open>C8: the fee of a withdrawal\<close>

text \<open>
  C8. For an existing user and \<open>0 < amount \<le>\<close> the balance of the coin, the
  withdrawal succeeds with \<open>etbValue = amount * coinValues[coin]\<close>, \<open>fee = 2\<close> when
  \<open>etbValue \<ge> 25\<close> and \<open>etbValue * 0.08\<close> otherwise, and
  \<open>received = etbValue - fee\<close>; the balance of the coin is debited by \<open>amount\<close> and
  the three values are recorded in the transaction. The instance below is the
  withdrawal of 0.00001 SKA: value 20, fee 1.6, received 18.4.
\<close>

theorem withdraw_fee_schedule:
  assumes "findOne_userId (users w) uid = Some u"
    and "get_coin (coins u) c = Num b" and "0 < a" and "a \<le> b"
  shows "let etbValue = a * coinValues c;
             fee = (if 25 \<le> etbValue then 2 else etbValue * 0.08);
             received = etbValue - fee;
             w' = snd (withdraw w uid c (Num a) method dets)
         in fst (withdraw w uid c (Num a) method dets)
              = Inr \<lparr>wd_received = Num received, wd_fee = Num fee\<rparr>
          \<and> findOne_userId (users w') uid = Some (u\<lparr>coins := set_coin (coins u) c (Num (b - a))\<rparr>)
          \<and> transactions w' = transactions w @
               [\<lparr>tx_userId = uid, tx_type = ''withdrawal'',
                 tx_details = WithdrawalDetails c (Num a) method dets
                                (Num etbValue) (Num fee) (Num received)\<rparr>]"
  using assms by (simp add: withdraw_def Let_def findOne_update_coins)

theorem withdraw_fee_schedule_witness:
  "findOne_userId (users w0) 1 = Some alice \<and> get_coin (coins alice) SKA = Num 0.00001
   \<and> (0::real) < 0.00001 \<and> (0.00001::real) \<le> 0.00001
   \<and> fst (withdraw w0 1 SKA (Num 0.00001) ''bank'' ''acct'')
        = Inr \<lparr>wd_received = Num 18.4, wd_fee = Num 1.6\<rparr>
   \<and> map_option (\<lambda>u. ska (coins u))
        (findOne_userId (users (snd (withdraw w0 1 SKA (Num 0.00001) ''bank'' ''acct''))) 1)
        = Some (Num 0)
   \<and> transactions (snd (withdraw w0 1 SKA (Num 0.00001) ''bank'' ''acct''))
        = [\<lparr>tx_userId = 1, tx_type = ''withdrawal'',
             tx_details = WithdrawalDetails SKA (Num 0.00001) ''bank'' ''acct''
                            (Num 20) (Num 1.6) (Num 18.4)\<rparr>]"
proof -
  have h1: "findOne_userId (users w0) 1 = Some alice" by simp
  have h2: "get_coin (coins alice) SKA = Num 0.00001" by (simp add: alice_def)
  have h3: "transactions w0 = []" by (simp add: w0_def)
  show ?thesis
    using withdraw_fee_schedule [OF h1 h2, of "0.00001" "''bank''" "''acct''"] h1 h2 h3
    by (simp add: Let_def)
qed

subsection \<open>C9: the balance check comes before the draw\<close>

text \<open>
  C9. When the amount of a bet exceeds the balance of the staked coin, the bet is
  refused with \<open>Insufficient balance\<close> whatever the generator would yield, and the
  state is unchanged: no balance, no transaction, and no call to \<open>Math.random\<close>. The
  draw is made only once the check has passed, and then exactly once.
\<close>

theorem bet_balance_check_precedes_draw:
  assumes "findOne_userId (users w) uid = Some u"
  shows "(jslt (get_coin (coins u) c) amt \<longrightarrow>
            bet rnd w uid c amt avatar = (Inl InsufficientBalance, w)) \<and>
         (\<not> jslt (get_coin (coins u) c) amt \<longrightarrow>
            random_calls (snd (bet rnd w uid c amt avatar)) = Suc (random_calls w))"
  using assms by (simp add: bet_def Let_def)

theorem bet_balance_check_precedes_draw_witness:
  "findOne_userId (users w0) 1 = Some alice \<and> jslt (get_coin (coins alice) GC) (Num 150) \<and>
   bet (\<lambda>_. 0.7) w0 1 GC (Num 150) ''fox'' = (Inl InsufficientBalance, w0) \<and>
   random_calls (snd (bet (\<lambda>_. 0.7) w0 1 GC (Num 150) ''fox'')) = random_calls w0"
  using bet_balance_check_precedes_draw [of w0 1 alice GC "Num 150" "\<lambda>_. 0.7" "''fox''"]
  by (simp add: alice_def)

subsection \<open>C10: an unknown code at /start\<close>

text \<open>
  C10. When a new user starts the bot with a code that belongs to no user, the account
  is created with \<open>referredBy\<close> unset and zero balances, the other users and the
  transactions are untouched, and the chat receives the welcome message and the game
  link, no error. \<open>POST /api/referral\<close> answers the same code with
  \<open>Invalid referral code\<close>.
\<close>

theorem start_ignores_unknown_code:
  assumes "findOne_userId (users w) uid = None"
    and "findOne_referralCode (users w) code = None"
  shows "start w uid uname fname lname (Some code) =
           ([Welcome (''5COIN-'' @ toString16Upper uid), PlayGame],
            w\<lparr>users := users w @
               [\<lparr>userId = uid, username = uname, firstName = fname, lastName = lname,
                 referralCode = ''5COIN-'' @ toString16Upper uid, referredBy = None,
                 coins = zero_coins, referrals = Num 0, earned = Num 0\<rparr>]\<rparr>)
         \<and> referral w uid' code = (Inl InvalidReferralCode, w)"
  using assms by (simp add: start_def referral_def Let_def)

theorem start_ignores_unknown_code_witness:
  "findOne_userId (users w0) 2 = None \<and> findOne_referralCode (users w0) ''5COIN-9'' = None \<and>
   start w0 2 (Some ''bob'') None None (Some ''5COIN-9'') =
     ([Welcome ''5COIN-2'', PlayGame],
      w0\<lparr>users := [alice,
           \<lparr>userId = 2, username = Some ''bob'', firstName = None, lastName = None,
             referralCode = ''5COIN-2'', referredBy = None,
             coins = zero_coins, referrals = Num 0, earned = Num 0\<rparr>]\<rparr>)
   \<and> referral w0 2 ''5COIN-9'' = (Inl InvalidReferralCode, w0)"
  using start_ignores_unknown_code [of w0 2 "''5COIN-9''" "Some ''bob''" None None 2]
  by (simp add: findOne_userId_def findOne_referralCode_def w0_def alice_def
      toString16Upper_def hex_nat.simps hex_digit_def)

end
